theory Spec2Isabelle
  imports Complex_Main
begin

section \<open>Requests, responses and the downstream handler\<close>

text \<open>
  The two middlewares of \<^verbatim>\<open>src/api/middleware\<close> are embedded as state-passing
  functions. Python floats (timestamps returned by \<^verbatim>\<open>time.time()\<close>, token counts)
  are read as real numbers. A request carries the three attributes the code inspects:
  \<^verbatim>\<open>request.method\<close> (field \<open>http_method\<close>), \<^verbatim>\<open>request.url.path\<close> and \<^verbatim>\<open>request.client.host\<close>.
\<close>

record request =
  http_method :: string
  path :: string
  client_host :: string

text \<open>
  A header value is a string; \<open>Str_of_float x\<close> stands for Python's \<^verbatim>\<open>str(x)\<close> of a
  float \<open>x\<close>, whose digits are not modelled.
\<close>

datatype hval = Str string | Str_of_float real

text \<open>A response: its rendered body, its status and its headers.\<close>

record response =
  content :: string
  status_code :: int
  headers :: "string \<rightharpoonup> hval"

text \<open>
  Exceptions: \<open>KeyError k\<close> for a missing dictionary key \<open>k\<close>, \<open>AttributeError a\<close> for
  an object without the attribute \<open>a\<close>, \<open>OverflowError\<close> with its message, and
  \<open>Exception\<close> for any other failure, with its message.
\<close>

datatype exn = KeyError string | AttributeError string | OverflowError string | Exception string

text \<open>
  \<^verbatim>\<open>call_next\<close> is the rest of the application. It may read and change a state of
  its own (type \<open>'d\<close>), and it either returns a response or raises.
\<close>

type_synonym 'd call_next = "request \<Rightarrow> 'd \<Rightarrow> (exn + response) \<times> 'd"

text \<open>
  \<^verbatim>\<open>Response\<close> is Starlette's class, imported at line 6 and not part of the repository.
  The one call of it (lines 50-54) passes a dict as content, with a status code and a
  dict of headers; a constructor called so either returns a response or raises. It is a
  parameter of \<^verbatim>\<open>dispatch\<close> below, so that what does not depend on the constructor is
  proved for any.

  Starlette's own constructor renders the content at once: \<^verbatim>\<open>__init__\<close> sets the
  status code and calls \<^verbatim>\<open>self.render(content)\<close>, which returns empty bytes for
  \<^verbatim>\<open>None\<close>, the content itself when it is bytes, and \<^verbatim>\<open>content.encode(self.charset)\<close>
  otherwise. A dict has no attribute \<^verbatim>\<open>encode\<close>: for a dict content the constructor
  raises \<^verbatim>\<open>AttributeError\<close> and no response object comes to exist.
\<close>

type_synonym response_ctor =
  "(string \<times> string) list \<Rightarrow> int \<Rightarrow> (string \<rightharpoonup> hval) \<Rightarrow> exn + response"

definition starlette_Response :: response_ctor where
  "starlette_Response content' status_code' headers' = Inl (AttributeError ''encode'')"

section \<open>\<^verbatim>\<open>rate_limit.py\<close>: the token bucket\<close>

text \<open>
  \<^verbatim>\<open>self.tokens\<close> maps a client address to the pair (tokens, last refill time).
\<close>

record RateLimitMiddleware =
  requests_per_minute :: int
  tokens :: "string \<rightharpoonup> real \<times> real"
  refill_rate :: real

text \<open>
  \<^verbatim>\<open>__init__\<close> (lines 16-24) stores its argument, starts with an empty dictionary and
  sets the refill rate to \<^verbatim>\<open>requests_per_minute / 60.0\<close>. It has no \<^verbatim>\<open>raise\<close> and
  checks nothing. The division converts the integer to a float first, and Python raises
  \<^verbatim>\<open>OverflowError\<close> when the integer, rounded to the nearest float, is beyond the
  largest one, that is when its magnitude is at least \<open>2 ^ 1024 - 2 ^ 970\<close>.
\<close>

definition float_limit :: int where
  "float_limit = 2 ^ 1024 - 2 ^ 970"

definition rate_limit_init :: "int \<Rightarrow> exn + RateLimitMiddleware" where
  "rate_limit_init rpm =
     (if float_limit \<le> \<bar>rpm\<bar> then Inl (OverflowError ''int too large to convert to float'')
      else Inr \<lparr>requests_per_minute = rpm, tokens = Map.empty,
                refill_rate = of_int rpm / 60\<rparr>)"

datatype decision = Allow | Deny

text \<open>
  Lines 34-57 of \<^verbatim>\<open>dispatch\<close>: the bucket of \<open>client_ip\<close> is created if absent
  (line 36, with the clock reading \<open>t0\<close>), read back (line 39; a missing key would
  raise \<^verbatim>\<open>KeyError\<close>), refilled for the time passed up to the clock reading \<open>now\<close>
  (line 40), and either the request is refused, with the dictionary left as it is
  (line 48), or one token is taken and the bucket written back (line 57).
\<close>

definition evaluate ::
  "RateLimitMiddleware \<Rightarrow> string \<Rightarrow> real \<Rightarrow> real \<Rightarrow> (exn + decision) \<times> RateLimitMiddleware" where
  "evaluate self client_ip t0 now =
     (let self1 = (if tokens self client_ip = None
                   then self\<lparr>tokens := (tokens self)
                          (client_ip \<mapsto> (of_int (requests_per_minute self), t0))\<rparr>
                   else self)
      in case tokens self1 client_ip of
           None \<Rightarrow> (Inl (KeyError client_ip), self1)
         | Some (tks, last_refill) \<Rightarrow>
             (let time_passed = now - last_refill;
                  new_tokens = min (of_int (requests_per_minute self1))
                                   (tks + time_passed * refill_rate self1)
              in if new_tokens < 1 then (Inr Deny, self1)
                 else (Inr Allow,
                       self1\<lparr>tokens := (tokens self1)(client_ip \<mapsto> (new_tokens - 1, now))\<rparr>)))"

text \<open>
  \<^verbatim>\<open>dispatch\<close> (lines 26-61). The state is the middleware object together with the
  state of the downstream application; \<open>t0\<close> and \<open>now\<close> are the values that the calls
  of \<^verbatim>\<open>time.time()\<close> at lines 36 and 40 return. On a refusal the outcome is what the
  call \<^verbatim>\<open>Response(content=..., status_code=429, headers=...)\<close> of lines 50-54 gives: the
  response it returns, or the exception it raises, which leaves \<^verbatim>\<open>dispatch\<close>.
\<close>

definition rate_limit_dispatch ::
  "response_ctor \<Rightarrow> 'd call_next \<Rightarrow> request \<Rightarrow> real \<Rightarrow> real \<Rightarrow> RateLimitMiddleware \<times> 'd
     \<Rightarrow> (exn + response) \<times> RateLimitMiddleware \<times> 'd" where
  "rate_limit_dispatch Response call_next request t0 now = (\<lambda>(self, d).
     let client_ip = client_host request
     in if path request = ''/health''
        then (let (r, d') = call_next request d in (r, self, d'))
        else (case evaluate self client_ip t0 now of
                (Inl e, self') \<Rightarrow> (Inl e, self', d)
              | (Inr Deny, self') \<Rightarrow>
                  (Response [(''error'', ''Rate limit exceeded. Please try again later.'')]
                            429
                            [''Retry-After'' \<mapsto> Str ''60''],
                   self', d)
              | (Inr Allow, self') \<Rightarrow>
                  (let (r, d') = call_next request d in (r, self', d'))))"

text \<open>
  A sequence of requests served one after the other by the same middleware object; each
  comes with its two clock readings. An exception leaves \<^verbatim>\<open>dispatch\<close> but not the
  object, so the run goes on after it.
\<close>

fun run ::
  "response_ctor \<Rightarrow> 'd call_next \<Rightarrow> (request \<times> real \<times> real) list
     \<Rightarrow> RateLimitMiddleware \<times> 'd
     \<Rightarrow> (exn + response) list \<times> RateLimitMiddleware \<times> 'd" where
  "run Response call_next [] s = ([], s)"
| "run Response call_next ((request, t0, now) # evs) s =
     (let (r, s') = rate_limit_dispatch Response call_next request t0 now s;
          (rs, s'') = run Response call_next evs s'
      in (r # rs, s''))"

text \<open>The same requests handed to the downstream application directly.\<close>

fun forward :: "'d call_next \<Rightarrow> request list \<Rightarrow> 'd \<Rightarrow> (exn + response) list \<times> 'd" where
  "forward call_next [] d = ([], d)"
| "forward call_next (request # reqs) d =
     (let (r, d') = call_next request d;
          (rs, d'') = forward call_next reqs d'
      in (r # rs, d''))"

section \<open>\<^verbatim>\<open>logging.py\<close>: the request log\<close>

text \<open>
  The logger is modelled by the list of records it has received. A record keeps the values
  that the f-strings of lines 25, 33-37 and 45-49 format.
\<close>

datatype log_record =
    Info_request string string
  | Info_response string string int real
  | Error_record string string exn real

text \<open>
  \<^verbatim>\<open>dispatch\<close> (lines 21-50); \<open>start_time\<close> is the clock reading of line 22 and
  \<open>end_time\<close> the one of line 30 or 44.
\<close>

definition logging_dispatch ::
  "'s call_next \<Rightarrow> request \<Rightarrow> real \<Rightarrow> real \<Rightarrow> log_record list \<times> 's
     \<Rightarrow> (exn + response) \<times> log_record list \<times> 's" where
  "logging_dispatch call_next request start_time end_time = (\<lambda>(logger, s).
     let logger1 = logger @ [Info_request (http_method request) (path request)];
         (r, s') = call_next request s
     in case r of
          Inr response \<Rightarrow>
            (let process_time = end_time - start_time;
                 logger2 = logger1 @ [Info_response (http_method request) (path request)
                                        (status_code response) process_time]
             in (Inr (response\<lparr>headers := (headers response)
                        (''X-Process-Time'' \<mapsto> Str_of_float process_time)\<rparr>),
                 logger2, s'))
        | Inl e \<Rightarrow>
            (let process_time = end_time - start_time;
                 logger2 = logger1 @ [Error_record (http_method request) (path request) e process_time]
             in (Inl e, logger2, s')))"

section \<open>Properties and sample inputs\<close>

text \<open>
  Every bucket of the dictionary holds a token count between zero and the capacity.
\<close>

definition within_capacity :: "RateLimitMiddleware \<Rightarrow> bool" where
  "within_capacity self =
     (\<forall>c tks lr. tokens self c = Some (tks, lr) \<longrightarrow>
        0 \<le> tks \<and> tks \<le> of_int (requests_per_minute self))"

text \<open>
  Sample inputs: a request to the chat endpoint from a given address, a health check, and
  two downstream applications that count their invocations: one answers 200, the other
  raises.
\<close>

definition chat_from :: "string \<Rightarrow> request" where
  "chat_from c = \<lparr>http_method = ''POST'', path = ''/api/chat'', client_host = c\<rparr>"

definition health_from :: "string \<Rightarrow> request" where
  "health_from c = \<lparr>http_method = ''GET'', path = ''/health'', client_host = c\<rparr>"

definition ok_response :: response where
  "ok_response = \<lparr>content = ''ok'', status_code = 200, headers = Map.empty\<rparr>"

definition serve_ok :: "nat call_next" where
  "serve_ok request d = (Inr ok_response, Suc d)"

definition serve_fail :: "nat call_next" where
  "serve_fail request d = (Inl (Exception ''boom''), Suc d)"

text \<open>
  Three middleware objects: as \<^verbatim>\<open>__init__\<close> builds them for one and for sixty requests
  per minute, and the first of them after it has admitted one request of \<open>10.0.0.1\<close> at
  time 100.
\<close>

definition one_per_minute :: RateLimitMiddleware where
  "one_per_minute = \<lparr>requests_per_minute = 1, tokens = Map.empty, refill_rate = 1 / 60\<rparr>"

definition sixty_per_minute :: RateLimitMiddleware where
  "sixty_per_minute = \<lparr>requests_per_minute = 60, tokens = Map.empty, refill_rate = 1\<rparr>"

definition drained :: RateLimitMiddleware where
  "drained = \<lparr>requests_per_minute = 1, tokens = [''10.0.0.1'' \<mapsto> (0, 100)],
              refill_rate = 1 / 60\<rparr>"

text \<open>
  The value of the \<^verbatim>\<open>Retry-After\<close> header of an outcome, and Python's \<^verbatim>\<open>str\<close> of a
  natural number, to compare a header with a number of seconds.
\<close>

definition retry_after :: "exn + response \<Rightarrow> hval option" where
  "retry_after r = (case r of Inl e \<Rightarrow> None | Inr resp \<Rightarrow> headers resp ''Retry-After'')"

fun str_nat :: "nat \<Rightarrow> string" where
  "str_nat n = (if n < 10 then [''0123456789'' ! n]
                else str_nat (n div 10) @ [''0123456789'' ! (n mod 10)])"

text \<open>
  Two formulas as the specification words them, for comparison with the code: the retry
  delay \<open>ceil((1 - refilledTokens) / refillRatePerSecond)\<close> and the clamped elapsed time
  \<open>max(0, now - lastRefill)\<close>.
\<close>

definition spec_retry_after :: "real \<Rightarrow> real \<Rightarrow> int" where
  "spec_retry_after refilled_tokens refill_rate_per_second =
     \<lceil>(1 - refilled_tokens) / refill_rate_per_second\<rceil>"

definition spec_elapsed :: "real \<Rightarrow> real \<Rightarrow> real" where
  "spec_elapsed now last_refill = max 0 (now - last_refill)"

lemmas eval_defs = rate_limit_dispatch_def evaluate_def Let_def chat_from_def health_from_def
  serve_ok_def serve_fail_def one_per_minute_def sixty_per_minute_def drained_def
  starlette_Response_def ok_response_def retry_after_def

section \<open>Stepping the bucket\<close>

lemma float_limit_large: "60 < float_limit"
  by (simp add: float_limit_def)

lemma rate_limit_init_Inr:
  "rate_limit_init rpm = Inr self0 \<Longrightarrow>
   self0 = \<lparr>requests_per_minute = rpm, tokens = Map.empty, refill_rate = of_int rpm / 60\<rparr>"
  by (simp add: rate_limit_init_def split: if_splits)

lemma init_one: "rate_limit_init 1 = Inr one_per_minute"
  using float_limit_large by (simp add: rate_limit_init_def one_per_minute_def)

lemma init_sixty: "rate_limit_init 60 = Inr sixty_per_minute"
  using float_limit_large by (simp add: rate_limit_init_def sixty_per_minute_def)

lemma evaluate_existing:
  "tokens self c = Some (tks, lr) \<Longrightarrow>
   evaluate self c t0 now =
     (if min (of_int (requests_per_minute self)) (tks + (now - lr) * refill_rate self) < 1
      then (Inr Deny, self)
      else (Inr Allow, self\<lparr>tokens := (tokens self)
              (c \<mapsto> (min (of_int (requests_per_minute self))
                          (tks + (now - lr) * refill_rate self) - 1, now))\<rparr>))"
  by (simp add: evaluate_def Let_def)

lemma evaluate_new:
  "tokens self c = None \<Longrightarrow>
   evaluate self c t0 now =
     evaluate (self\<lparr>tokens := (tokens self)
                 (c \<mapsto> (of_int (requests_per_minute self), t0))\<rparr>) c t0 now"
  by (simp add: evaluate_def Let_def)

lemma evaluate_rpm:
  "requests_per_minute (snd (evaluate self c t0 now)) = requests_per_minute self"
  by (simp add: evaluate_def Let_def split: option.splits prod.splits)

lemma dispatch_limiter:
  "fst (snd (rate_limit_dispatch R h r t0 now (self, d))) =
     (if path r = ''/health'' then self else snd (evaluate self (client_host r) t0 now))"
  by (simp add: rate_limit_dispatch_def Let_def
           split: prod.splits sum.splits decision.splits)

lemma dispatch_rpm:
  "requests_per_minute (fst (snd (rate_limit_dispatch R h r t0 now (self, d)))) =
     requests_per_minute self"
  by (simp add: dispatch_limiter evaluate_rpm)

lemma evaluate_Deny_state:
  assumes "fst (evaluate self c t0 now) = Inr Deny"
  shows "snd (evaluate self c t0 now) =
           (if tokens self c = None
            then self\<lparr>tokens := (tokens self)
                   (c \<mapsto> (of_int (requests_per_minute self), t0))\<rparr>
            else self)"
proof (cases "tokens self c")
  case None
  let ?s1 = "self\<lparr>tokens := (tokens self)(c \<mapsto> (of_int (requests_per_minute self), t0))\<rparr>"
  have ex: "tokens ?s1 c = Some (of_int (requests_per_minute self), t0)" by simp
  have eq: "evaluate self c t0 now = evaluate ?s1 c t0 now"
    using None by (rule evaluate_new)
  with assms have "fst (evaluate ?s1 c t0 now) = Inr Deny" by simp
  then have "snd (evaluate ?s1 c t0 now) = ?s1"
    unfolding evaluate_existing [OF ex] by (simp split: if_splits)
  with eq None show ?thesis by simp
next
  case (Some b)
  obtain tks lr where b: "b = (tks, lr)" by (cases b)
  have ex: "tokens self c = Some (tks, lr)" using Some b by simp
  from assms have "snd (evaluate self c t0 now) = self"
    unfolding evaluate_existing [OF ex] by (simp split: if_splits)
  with Some show ?thesis by simp
qed

lemma dispatch_Allow:
  "path r \<noteq> ''/health'' \<Longrightarrow> evaluate self (client_host r) t0 now = (Inr Allow, self') \<Longrightarrow>
   rate_limit_dispatch R h r t0 now (self, d) = (fst (h r d), self', snd (h r d))"
  by (simp add: rate_limit_dispatch_def case_prod_beta)

lemma dispatch_Deny:
  "path r \<noteq> ''/health'' \<Longrightarrow> evaluate self (client_host r) t0 now = (Inr Deny, self') \<Longrightarrow>
   rate_limit_dispatch R h r t0 now (self, d) =
     (R [(''error'', ''Rate limit exceeded. Please try again later.'')] 429
        [''Retry-After'' \<mapsto> Str ''60''],
      self', d)"
  by (simp add: rate_limit_dispatch_def)

lemma dispatch_health:
  "path r = ''/health'' \<Longrightarrow>
   rate_limit_dispatch R h r t0 now (self, d) = (fst (h r d), self, snd (h r d))"
  by (simp add: rate_limit_dispatch_def case_prod_beta)

lemma dispatch_new:
  "tokens self (client_host r) = None \<Longrightarrow> path r \<noteq> ''/health'' \<Longrightarrow>
   rate_limit_dispatch R h r t0 now (self, d) =
   rate_limit_dispatch R h r t0 now
     (self\<lparr>tokens := (tokens self)
              (client_host r \<mapsto> (of_int (requests_per_minute self), t0))\<rparr>, d)"
  using evaluate_new [of self "client_host r" t0 now]
  by (simp add: rate_limit_dispatch_def)

lemma run_Cons:
  "run R h ((r, t0, now) # evs) s =
     (fst (rate_limit_dispatch R h r t0 now s) #
        fst (run R h evs (snd (rate_limit_dispatch R h r t0 now s))),
      snd (run R h evs (snd (rate_limit_dispatch R h r t0 now s))))"
  by (simp add: case_prod_beta)

lemma forward_Cons:
  "forward h (r # reqs) d =
     (fst (h r d) # fst (forward h reqs (snd (h r d))), snd (forward h reqs (snd (h r d))))"
  by (simp add: case_prod_beta)

lemma run_append:
  "run R h (xs @ ys) s =
     (fst (run R h xs s) @ fst (run R h ys (snd (run R h xs s))),
      snd (run R h ys (snd (run R h xs s))))"
proof (induction xs arbitrary: s)
  case Nil
  then show ?case by simp
next
  case (Cons ev xs)
  obtain r t0 now where ev: "ev = (r, t0, now)" by (cases ev)
  show ?case by (simp add: ev case_prod_beta Cons.IH)
qed

section \<open>The token count stays within the capacity\<close>

lemma within_capacity_evaluate_existing:
  assumes "within_capacity self" "tokens self c = Some (tks, lr)"
  shows "within_capacity (snd (evaluate self c t0 now))"
  using assms unfolding within_capacity_def
  by (auto simp: evaluate_existing)

lemma within_capacity_evaluate:
  assumes "within_capacity self" "0 \<le> requests_per_minute self"
  shows "within_capacity (snd (evaluate self c t0 now))"
proof (cases "tokens self c")
  case None
  let ?s1 = "self\<lparr>tokens := (tokens self)(c \<mapsto> (of_int (requests_per_minute self), t0))\<rparr>"
  have "within_capacity ?s1"
    using assms unfolding within_capacity_def by auto
  moreover have "tokens ?s1 c = Some (of_int (requests_per_minute self), t0)" by simp
  ultimately have "within_capacity (snd (evaluate ?s1 c t0 now))"
    by (rule within_capacity_evaluate_existing)
  then show ?thesis using None by (simp add: evaluate_new)
next
  case (Some b)
  then show ?thesis using assms(1) by (cases b) (simp add: within_capacity_evaluate_existing)
qed

lemma within_capacity_dispatch:
  assumes "within_capacity self" "0 \<le> requests_per_minute self"
  shows "within_capacity (fst (snd (rate_limit_dispatch R h r t0 now (self, d))))"
  using assms by (simp add: dispatch_limiter within_capacity_evaluate)

lemma within_capacity_run:
  "within_capacity self \<Longrightarrow> 0 \<le> requests_per_minute self \<Longrightarrow>
   within_capacity (fst (snd (run R h evs (self, d)))) \<and>
   requests_per_minute (fst (snd (run R h evs (self, d)))) = requests_per_minute self"
proof (induction evs arbitrary: self d)
  case Nil
  then show ?case by simp
next
  case (Cons ev evs)
  obtain r t0 now where ev: "ev = (r, t0, now)" by (cases ev)
  obtain res self' d' where st: "rate_limit_dispatch R h r t0 now (self, d) = (res, self', d')"
    by (cases "rate_limit_dispatch R h r t0 now (self, d)")
  have "within_capacity self'" "requests_per_minute self' = requests_per_minute self"
    using within_capacity_dispatch [OF Cons.prems, of R h r t0 now d]
      dispatch_rpm [of R h r t0 now self d] st by simp_all
  with Cons.IH [of self' d'] Cons.prems(2) show ?case
    by (simp add: ev st case_prod_beta)
qed

text \<open>
  C1. Start from the middleware as \<^verbatim>\<open>__init__\<close> builds it for a capacity
  \<open>rpm \<ge> 0\<close>, with no bucket yet, and serve any list of requests: any clients, any paths,
  any downstream application, any response constructor, any clock readings, increasing or
  not. Every bucket then in the dictionary holds a token count \<open>tks\<close> with
  \<open>0 \<le> tks \<le> rpm\<close>. Each prefix of a list of requests is such a list, so the bound holds
  after each single evaluation.
\<close>

theorem tokens_within_capacity:
  assumes "0 \<le> rpm" and "rate_limit_init rpm = Inr self0"
    and "tokens (fst (snd (run R h evs (self0, d)))) c = Some (tks, lr)"
  shows "0 \<le> tks \<and> tks \<le> of_int rpm"
proof -
  have s0: "self0 = \<lparr>requests_per_minute = rpm, tokens = Map.empty,
                      refill_rate = of_int rpm / 60\<rparr>"
    using assms(2) by (rule rate_limit_init_Inr)
  have start: "within_capacity self0" "requests_per_minute self0 = rpm"
    by (simp_all add: s0 within_capacity_def)
  with within_capacity_run [of self0 R h evs d] assms(1)
  have "within_capacity (fst (snd (run R h evs (self0, d))))" by simp
  with assms(3)
  have "0 \<le> tks \<and> tks \<le> of_int (requests_per_minute (fst (snd (run R h evs (self0, d)))))"
    unfolding within_capacity_def by blast
  moreover have "requests_per_minute (fst (snd (run R h evs (self0, d)))) = rpm"
    using within_capacity_run [of self0 R h evs d] start assms(1) by simp
  ultimately show ?thesis by simp
qed

theorem tokens_within_capacity_witness:
  "(0::int) \<le> 2 \<and>
   rate_limit_init 2 =
     Inr \<lparr>requests_per_minute = 2, tokens = Map.empty, refill_rate = 1 / 30\<rparr> \<and>
   tokens (fst (snd (run starlette_Response serve_ok
       [(chat_from ''10.0.0.1'', 5, 5), (chat_from ''10.0.0.1'', 6, 35)]
       (\<lparr>requests_per_minute = 2, tokens = Map.empty, refill_rate = 1 / 30\<rparr>, 0))))
     ''10.0.0.1'' = Some (1, 35) \<and>
   (0::real) \<le> 1 \<and> (1::real) \<le> of_int 2"
proof -
  have h1: "(0::int) \<le> 2" by simp
  have h2: "rate_limit_init 2 =
     Inr \<lparr>requests_per_minute = 2, tokens = Map.empty, refill_rate = 1 / 30\<rparr>"
    using float_limit_large by (simp add: rate_limit_init_def)
  have h3: "tokens (fst (snd (run starlette_Response serve_ok
       [(chat_from ''10.0.0.1'', 5, 5), (chat_from ''10.0.0.1'', 6, 35)]
       (\<lparr>requests_per_minute = 2, tokens = Map.empty, refill_rate = 1 / 30\<rparr>, 0))))
     ''10.0.0.1'' = Some (1, 35)"
    by (simp add: rate_limit_dispatch_def evaluate_def Let_def chat_from_def serve_ok_def)
  from tokens_within_capacity [OF h1 h2 h3] h1 h2 h3 show ?thesis by simp
qed

section \<open>The first burst of a new client\<close>

lemma replace_state: "x = (a, s, b) \<Longrightarrow> s = s' \<Longrightarrow> x = (a, s', b)"
  by simp

lemma run_burst:
  assumes "client_host r = c" "path r \<noteq> ''/health''"
  shows "tokens self c = Some (of_nat m, t) \<Longrightarrow> int m \<le> requests_per_minute self \<Longrightarrow>
     run R h (replicate m (r, t, t)) (self, d) =
       (fst (forward h (replicate m r) d),
        self\<lparr>tokens := (tokens self)(c \<mapsto> (0, t))\<rparr>,
        snd (forward h (replicate m r) d))"
proof (induction m arbitrary: self d)
  case 0
  then have "(tokens self)(c \<mapsto> (0, t)) = tokens self" by (simp add: map_upd_triv)
  then show ?case by simp
next
  case (Suc m)
  let ?self' = "self\<lparr>tokens := (tokens self)(c \<mapsto> (of_nat m, t))\<rparr>"
  have le: "real (Suc m) \<le> of_int (requests_per_minute self)"
    using Suc.prems(2) by (metis of_int_le_iff of_int_of_nat_eq)
  have "evaluate self c t t = (Inr Allow, ?self')"
    using Suc.prems(1) le by (simp add: evaluate_existing min_def)
  then have step: "rate_limit_dispatch R h r t t (self, d) = (fst (h r d), ?self', snd (h r d))"
    using assms dispatch_Allow [of r self t t ?self' R h d] by simp
  have "run R h (replicate m (r, t, t)) (?self', snd (h r d)) =
       (fst (forward h (replicate m r) (snd (h r d))),
        ?self'\<lparr>tokens := (tokens ?self')(c \<mapsto> (0, t))\<rparr>,
        snd (forward h (replicate m r) (snd (h r d))))"
    using Suc.prems(2) by (intro Suc.IH) simp_all
  moreover have "?self'\<lparr>tokens := (tokens ?self')(c \<mapsto> (0, t))\<rparr> =
                 self\<lparr>tokens := (tokens self)(c \<mapsto> (0, t))\<rparr>"
    by (rule RateLimitMiddleware.equality) simp_all
  ultimately have "run R h (replicate m (r, t, t)) (?self', snd (h r d)) =
       (fst (forward h (replicate m r) (snd (h r d))),
        self\<lparr>tokens := (tokens self)(c \<mapsto> (0, t))\<rparr>,
        snd (forward h (replicate m r) (snd (h r d))))"
    by (rule replace_state)
  then show ?case
    by (simp only: replicate_Suc run_Cons forward_Cons step fst_conv snd_conv)
qed

lemma run_new_burst:
  assumes "tokens self c = None" and "requests_per_minute self = int n"
    and "client_host r = c" and "path r \<noteq> ''/health''"
  shows "run R h (replicate n (r, t, t) @ [(r, t, t)]) (self, d) =
           (fst (forward h (replicate n r) d) @
              [R [(''error'', ''Rate limit exceeded. Please try again later.'')] 429
                 [''Retry-After'' \<mapsto> Str ''60'']],
            self\<lparr>tokens := (tokens self)(c \<mapsto> (0, t))\<rparr>,
            snd (forward h (replicate n r) d))"
proof -
  let ?self1 = "self\<lparr>tokens := (tokens self)(c \<mapsto> (of_int (requests_per_minute self), t))\<rparr>"
  let ?self2 = "self\<lparr>tokens := (tokens self)(c \<mapsto> (0, t))\<rparr>"
  let ?no = "R [(''error'', ''Rate limit exceeded. Please try again later.'')] 429
               [''Retry-After'' \<mapsto> Str ''60'']"
  have new: "run R h (replicate n (r, t, t) @ [(r, t, t)]) (self, d) =
             run R h (replicate n (r, t, t) @ [(r, t, t)]) (?self1, d)"
    using dispatch_new [of self r R h t t d] assms(1,3,4) by (cases n) simp_all
  have b: "tokens ?self1 c = Some (of_nat n, t)" using assms(2) by simp
  have burst: "run R h (replicate n (r, t, t)) (?self1, d) =
       (fst (forward h (replicate n r) d), ?self2, snd (forward h (replicate n r) d))"
    using run_burst [OF assms(3,4) b, of R h d] assms(2) by simp
  have "evaluate ?self2 c t t = (Inr Deny, ?self2)"
    by (simp add: evaluate_existing [of ?self2 c 0 t])
  then have last: "rate_limit_dispatch R h r t t (?self2, d') = (?no, ?self2, d')" for d'
    using dispatch_Deny [of r ?self2 t t ?self2 R h d'] assms(3,4) by simp
  have "run R h (replicate n (r, t, t) @ [(r, t, t)]) (?self1, d) =
          (fst (forward h (replicate n r) d) @ [?no], ?self2,
           snd (forward h (replicate n r) d))"
    by (simp add: run_append burst last)
  with new show ?thesis by simp
qed

lemma burst_then_Deny:
  assumes "tokens self c = None" and "requests_per_minute self = int n"
    and "client_host r = c" and "path r \<noteq> ''/health''"
  shows "fst (evaluate (fst (snd (run R h (replicate n (r, t, t)) (self, d)))) c t t) = Inr Deny"
proof (cases n)
  case 0
  let ?self1 = "self\<lparr>tokens := (tokens self)(c \<mapsto> (of_int (requests_per_minute self), t))\<rparr>"
  have "tokens ?self1 c = Some (0, t)" using assms(2) 0 by simp
  then have "fst (evaluate ?self1 c t t) = Inr Deny"
    using assms(2) 0 by (simp add: evaluate_existing)
  then show ?thesis using 0 evaluate_new [OF assms(1), of t t] by simp
next
  case (Suc m)
  let ?self1 = "self\<lparr>tokens := (tokens self)(c \<mapsto> (of_int (requests_per_minute self), t))\<rparr>"
  let ?self2 = "self\<lparr>tokens := (tokens self)(c \<mapsto> (0, t))\<rparr>"
  have new: "run R h (replicate n (r, t, t)) (self, d) = run R h (replicate n (r, t, t)) (?self1, d)"
    using dispatch_new [of self r R h t t d] assms(1,3,4) Suc by simp
  have b: "tokens ?self1 c = Some (of_nat n, t)" using assms(2) by simp
  have "run R h (replicate n (r, t, t)) (?self1, d) =
       (fst (forward h (replicate n r) d), ?self2, snd (forward h (replicate n r) d))"
    using run_burst [OF assms(3,4) b, of R h d] assms(2) by simp
  with new have "fst (snd (run R h (replicate n (r, t, t)) (self, d))) = ?self2" by simp
  moreover have "fst (evaluate ?self2 c t t) = Inr Deny"
    by (simp add: evaluate_existing [of ?self2 c 0 t])
  ultimately show ?thesis by simp
qed

text \<open>
  C5. A client \<open>c\<close> without a bucket is evaluated as if its bucket held the full capacity
  since the clock reading of line 36: the bucket is created on the first request. So when
  the capacity is \<open>n\<close> and the client sends \<open>n + 1\<close> requests with every clock reading
  equal to \<open>t\<close>, the first \<open>n\<close> are admitted: they reach the downstream application one
  after the other and their outcomes are returned. The evaluation of the last one, in the
  state the first \<open>n\<close> leave, decides to refuse it: the application is not called for it
  and the bucket is then empty. With Starlette's constructor the refusal leaves
  \<^verbatim>\<open>dispatch\<close> as the \<^verbatim>\<open>AttributeError\<close> of the call at lines 50-54.
\<close>

theorem first_burst:
  assumes "tokens self c = None" and "requests_per_minute self = int n"
    and "client_host r = c" and "path r \<noteq> ''/health''"
  shows "evaluate self c t0 now =
           evaluate (self\<lparr>tokens := (tokens self)(c \<mapsto> (of_int (int n), t0))\<rparr>) c t0 now \<and>
         run starlette_Response h (replicate n (r, t, t) @ [(r, t, t)]) (self, d) =
           (fst (forward h (replicate n r) d) @ [Inl (AttributeError ''encode'')],
            self\<lparr>tokens := (tokens self)(c \<mapsto> (0, t))\<rparr>,
            snd (forward h (replicate n r) d)) \<and>
         fst (evaluate (fst (snd (run starlette_Response h (replicate n (r, t, t)) (self, d))))
                c t t) = Inr Deny"
proof -
  have "evaluate self c t0 now =
      evaluate (self\<lparr>tokens := (tokens self)(c \<mapsto> (of_int (int n), t0))\<rparr>) c t0 now"
    using evaluate_new [OF assms(1), of t0 now] assms(2) by simp
  moreover have "run starlette_Response h (replicate n (r, t, t) @ [(r, t, t)]) (self, d) =
           (fst (forward h (replicate n r) d) @ [Inl (AttributeError ''encode'')],
            self\<lparr>tokens := (tokens self)(c \<mapsto> (0, t))\<rparr>,
            snd (forward h (replicate n r) d))"
    using run_new_burst [OF assms, of starlette_Response h t d]
    by (simp add: starlette_Response_def)
  moreover have "fst (evaluate (fst (snd (run starlette_Response h (replicate n (r, t, t))
      (self, d)))) c t t) = Inr Deny"
    using assms by (rule burst_then_Deny)
  ultimately show ?thesis by simp
qed

theorem first_burst_witness:
  "tokens sixty_per_minute ''10.0.0.1'' = None \<and>
   requests_per_minute sixty_per_minute = int 60 \<and>
   client_host (chat_from ''10.0.0.1'') = ''10.0.0.1'' \<and>
   path (chat_from ''10.0.0.1'') \<noteq> ''/health'' \<and>
   run starlette_Response serve_ok
       (replicate 60 (chat_from ''10.0.0.1'', 7, 7) @ [(chat_from ''10.0.0.1'', 7, 7)])
       (sixty_per_minute, 0) =
     (replicate 60 (Inr ok_response) @ [Inl (AttributeError ''encode'')],
      sixty_per_minute\<lparr>tokens := [''10.0.0.1'' \<mapsto> (0, 7)]\<rparr>, 60)"
proof -
  have h1: "tokens sixty_per_minute ''10.0.0.1'' = None"
    by (simp add: sixty_per_minute_def)
  have h2: "requests_per_minute sixty_per_minute = int 60"
    by (simp add: sixty_per_minute_def)
  have h3: "client_host (chat_from ''10.0.0.1'') = ''10.0.0.1''"
    by (simp add: chat_from_def)
  have h4: "path (chat_from ''10.0.0.1'') \<noteq> ''/health''"
    by (simp add: chat_from_def)
  have fw: "forward serve_ok (replicate k r) d = (replicate k (Inr ok_response), d + k)"
    for k r d
    by (induction k arbitrary: d) (simp_all add: serve_ok_def)
  have "tokens sixty_per_minute = Map.empty" by (simp add: sixty_per_minute_def)
  with first_burst [OF h1 h2 h3 h4, of 0 0 serve_ok 7 0] h1 h2 h3 h4 show ?thesis
    by (simp add: fw)
qed

section \<open>The health check\<close>

text \<open>
  C7. Requests to \<^verbatim>\<open>/health\<close>, however many and from whichever clients, are handed to
  the downstream application as if the middleware were absent: the outcomes are the
  application's own (none comes from the refusal branch of the limiter), and the
  middleware object, with every bucket in it, is left as it was (no bucket created, none
  changed).
\<close>

theorem health_bypass:
  "\<forall>e\<in>set evs. path (fst e) = ''/health'' \<Longrightarrow>
   run R h evs (self, d) =
     (fst (forward h (map fst evs) d), self, snd (forward h (map fst evs) d))"
proof (induction evs arbitrary: d)
  case Nil
  then show ?case by simp
next
  case (Cons ev evs)
  obtain r t0 now where ev: "ev = (r, t0, now)" by (cases ev)
  with Cons.prems have "path r = ''/health''" by simp
  then have "rate_limit_dispatch R h r t0 now (self, d) = (fst (h r d), self, snd (h r d))"
    by (rule dispatch_health)
  moreover have "run R h evs (self, snd (h r d)) =
     (fst (forward h (map fst evs) (snd (h r d))), self,
      snd (forward h (map fst evs) (snd (h r d))))"
    using Cons.prems by (intro Cons.IH) simp
  ultimately show ?case by (simp add: ev case_prod_beta)
qed

theorem health_bypass_witness:
  "path (health_from ''10.0.0.1'') = ''/health'' \<and>
   path (health_from ''10.0.0.2'') = ''/health'' \<and>
   run starlette_Response serve_ok
       [(health_from ''10.0.0.1'', 130, 131), (health_from ''10.0.0.2'', 132, 133)]
       (drained, 0) =
     ([Inr ok_response, Inr ok_response], drained, 2)"
proof -
  have h1: "\<forall>e\<in>set [(health_from ''10.0.0.1'', 130, 131), (health_from ''10.0.0.2'', 132, 133)].
      path (fst e) = ''/health''"
    by (simp add: health_from_def)
  from health_bypass [OF h1, of starlette_Response serve_ok drained 0] h1 show ?thesis
    by (simp add: serve_ok_def health_from_def)
qed

section \<open>The refusal\<close>

text \<open>
  C6. The failing input: with one request per minute, the client \<open>10.0.0.1\<close> is admitted
  at time 100 and asks again at time 130, when its bucket \<open>(0, 100)\<close> refills to
  \<open>1/2 < 1\<close>. The evaluation decides to refuse, the downstream application is not called
  (its counter stays at 1 and the bucket as it was), and the call
  \<^verbatim>\<open>Response(content={...}, status_code=429, headers=...)\<close> raises \<^verbatim>\<open>AttributeError\<close>:
  \<^verbatim>\<open>dispatch\<close> returns no response, so neither the status 429 nor the header nor the
  body reaches the caller.
\<close>

theorem refusal_raises:
  "fst (evaluate drained (client_host (chat_from ''10.0.0.1'')) 101 130) = Inr Deny \<and>
   rate_limit_dispatch starlette_Response serve_ok (chat_from ''10.0.0.1'') 101 130 (drained, 1) =
     (Inl (AttributeError ''encode''), drained, 1) \<and>
   run starlette_Response serve_ok
     [(chat_from ''10.0.0.1'', 100, 100), (chat_from ''10.0.0.1'', 101, 130)]
     (one_per_minute, 0) =
     ([Inr ok_response, Inl (AttributeError ''encode'')], drained, 1)"
  by (simp add: eval_defs)

section \<open>Failures of the downstream application under the request log\<close>

text \<open>
  C9. When the downstream application raises \<open>e\<close>, the logging middleware has logged the
  request, logs one error record with the method, the path, the exception and the time
  \<open>end_time - start_time\<close>, and raises the same \<open>e\<close>; the state the application left is
  kept. The failure is neither swallowed nor turned into a response.
\<close>

theorem logging_propagates:
  "h r s = (Inl e, s') \<Longrightarrow>
   logging_dispatch h r start_time end_time (logger, s) =
     (Inl e,
      logger @ [Info_request (http_method r) (path r),
                Error_record (http_method r) (path r) e (end_time - start_time)],
      s')"
  by (simp add: logging_dispatch_def)

theorem logging_propagates_witness:
  "serve_fail (chat_from ''10.0.0.1'') 0 = (Inl (Exception ''boom''), 1) \<and>
   logging_dispatch serve_fail (chat_from ''10.0.0.1'') 10 12 ([], 0) =
     (Inl (Exception ''boom''),
      [Info_request ''POST'' ''/api/chat'',
       Error_record ''POST'' ''/api/chat'' (Exception ''boom'') 2],
      1)"
proof -
  have h1: "serve_fail (chat_from ''10.0.0.1'') 0 = (Inl (Exception ''boom''), 1)"
    by (simp add: serve_fail_def)
  from logging_propagates [of serve_fail "chat_from ''10.0.0.1''" 0 "Exception ''boom''" 1
      10 12 "[]", OF h1] h1
  show ?thesis
    by (simp add: chat_from_def)
qed

section \<open>What a refusal leaves in the dictionary\<close>

text \<open>
  A run against C2 as worded (a refusal writes back the refilled token count and the
  current time). With one request per minute, the request of \<open>10.0.0.1\<close> at time 100 is
  admitted and leaves the bucket \<open>(0, 100)\<close>. The next one, at time 130, finds
  \<open>0 + 30 / 60 < 1\<close> tokens and is refused; the bucket is still \<open>(0, 100)\<close>, not
  \<open>(1/2, 130)\<close>.
\<close>

theorem deny_writes_back_counterexample:
  "rate_limit_init 1 = Inr one_per_minute \<and>
   fst (snd (run starlette_Response serve_ok [(chat_from ''10.0.0.1'', 100, 100)]
               (one_per_minute, 0))) = drained \<and>
   tokens drained ''10.0.0.1'' = Some (0, 100) \<and>
   fst (evaluate drained ''10.0.0.1'' 101 130) = Inr Deny \<and>
   tokens (fst (snd (run starlette_Response serve_ok
       [(chat_from ''10.0.0.1'', 100, 100), (chat_from ''10.0.0.1'', 101, 130)]
       (one_per_minute, 0)))) ''10.0.0.1'' = Some (0, 100) \<and>
   Some (0, 100) \<noteq> Some (min 1 (0 + (130 - 100) * (1 / 60)), 130 :: real)"
  using init_one by (simp add: eval_defs)

text \<open>
  C2, amended. When a request is refused, nothing is written back for its client: the
  bucket after \<^verbatim>\<open>dispatch\<close> is the one that was read at line 39, that is the bucket
  stored before the request, or the pair (capacity, \<open>t0\<close>) just created for a client
  without one. No token is taken and the stored refill time is not moved to \<open>now\<close>.
\<close>

theorem deny_keeps_bucket:
  assumes "path r \<noteq> ''/health''" and "fst (evaluate self (client_host r) t0 now) = Inr Deny"
  shows "tokens (fst (snd (rate_limit_dispatch R h r t0 now (self, d)))) (client_host r) =
           (case tokens self (client_host r) of
              Some b \<Rightarrow> Some b
            | None \<Rightarrow> Some (of_int (requests_per_minute self), t0))"
  using assms(1) evaluate_Deny_state [OF assms(2)]
  by (simp add: dispatch_limiter split: option.splits)

theorem deny_keeps_bucket_witness:
  "path (chat_from ''10.0.0.1'') \<noteq> ''/health'' \<and>
   fst (evaluate drained (client_host (chat_from ''10.0.0.1'')) 101 130) = Inr Deny \<and>
   tokens (fst (snd (rate_limit_dispatch starlette_Response serve_ok (chat_from ''10.0.0.1'')
                       101 130 (drained, 0))))
     (client_host (chat_from ''10.0.0.1'')) = Some (0, 100)"
proof -
  have h1: "path (chat_from ''10.0.0.1'') \<noteq> ''/health''"
    by (simp add: chat_from_def)
  have h2: "fst (evaluate drained (client_host (chat_from ''10.0.0.1'')) 101 130) = Inr Deny"
    by (simp add: evaluate_def Let_def chat_from_def drained_def)
  have h3: "tokens drained (client_host (chat_from ''10.0.0.1'')) = Some (0, 100)"
    by (simp add: chat_from_def drained_def)
  from deny_keeps_bucket [OF h1 h2, of starlette_Response serve_ok 0] h1 h2 h3 show ?thesis
    by simp
qed

text \<open>
  A run against C10 as worded (a refusal leaves the whole dictionary unchanged). With sixty
  requests per minute and no bucket yet, the first request of \<open>10.0.0.1\<close> reads the clock
  as 100 at line 36 and as 0 at line 40: \<open>60 + (0 - 100) * 1 < 1\<close>, the request is
  refused, and the dictionary now holds the bucket \<open>(60, 100)\<close> created at line 36.
\<close>

theorem deny_store_unchanged_counterexample:
  "rate_limit_init 60 = Inr sixty_per_minute \<and>
   fst (evaluate sixty_per_minute (client_host (chat_from ''10.0.0.1'')) 100 0) = Inr Deny \<and>
   tokens sixty_per_minute ''10.0.0.1'' = None \<and>
   tokens (fst (snd (rate_limit_dispatch starlette_Response serve_ok (chat_from ''10.0.0.1'')
                       100 0 (sixty_per_minute, 0)))) ''10.0.0.1'' = Some (60, 100)"
  using init_sixty by (simp add: eval_defs)

text \<open>
  C10, amended. A refusal writes no bucket back: every bucket that was in the dictionary
  keeps both its fields, and when the refused client had a bucket the middleware object
  after the request is the one before it, so that later refills compute as if the refused
  request had not been made. The only entry a refusal can leave is the bucket
  (capacity, \<open>t0\<close>) that line 36 creates for a client without one.
\<close>

theorem deny_leaves_buckets:
  assumes "path r \<noteq> ''/health''" and "fst (evaluate self (client_host r) t0 now) = Inr Deny"
    and "rate_limit_dispatch R h r t0 now (self, d) = (res, self', d')"
  shows "(\<forall>c b. tokens self c = Some b \<longrightarrow> tokens self' c = Some b) \<and>
         (tokens self (client_host r) \<noteq> None \<longrightarrow> self' = self) \<and>
         (tokens self (client_host r) = None \<longrightarrow>
            self' = self\<lparr>tokens := (tokens self)
                      (client_host r \<mapsto> (of_int (requests_per_minute self), t0))\<rparr>)"
proof -
  have "self' = snd (evaluate self (client_host r) t0 now)"
    using dispatch_limiter [of R h r t0 now self d] assms(1,3) by simp
  with evaluate_Deny_state [OF assms(2)] show ?thesis
    by auto
qed

theorem deny_leaves_buckets_witness:
  "path (chat_from ''10.0.0.1'') \<noteq> ''/health'' \<and>
   fst (evaluate drained (client_host (chat_from ''10.0.0.1'')) 101 130) = Inr Deny \<and>
   rate_limit_dispatch starlette_Response serve_ok (chat_from ''10.0.0.1'') 101 130 (drained, 0) =
     (Inl (AttributeError ''encode''), drained, 0) \<and>
   tokens drained (client_host (chat_from ''10.0.0.1'')) \<noteq> None \<and>
   tokens drained ''10.0.0.1'' = Some (0, 100)"
proof -
  have h1: "path (chat_from ''10.0.0.1'') \<noteq> ''/health''"
    by (simp add: chat_from_def)
  have h2: "fst (evaluate drained (client_host (chat_from ''10.0.0.1'')) 101 130) = Inr Deny"
    by (simp add: evaluate_def Let_def chat_from_def drained_def)
  obtain res self' d' where
    h3: "rate_limit_dispatch starlette_Response serve_ok (chat_from ''10.0.0.1'') 101 130
           (drained, 0) = (res, self', d')"
    by (cases "rate_limit_dispatch starlette_Response serve_ok (chat_from ''10.0.0.1'') 101 130
                 (drained, 0)")
  have h4: "tokens drained (client_host (chat_from ''10.0.0.1'')) \<noteq> None"
    by (simp add: chat_from_def drained_def)
  have h5: "tokens drained ''10.0.0.1'' = Some (0, 100)"
    by (simp add: drained_def)
  have "self' = drained"
    using deny_leaves_buckets [OF h1 h2 h3] h4 by simp
  moreover have "res = Inl (AttributeError ''encode'')" "d' = 0"
    using h3 h1 h2
    by (simp_all add: rate_limit_dispatch_def starlette_Response_def
          split: prod.splits sum.splits decision.splits)
  ultimately show ?thesis using h1 h2 h3 h4 h5 by simp
qed

section \<open>The retry delay\<close>

text \<open>
  A run against C3 as worded (a refused request reports the delay
  \<open>ceil((1 - refilledTokens) / refillRatePerSecond)\<close>, and a later refusal reports less).
  With one request per minute, a client admitted at time 100 is refused at time 130 with
  \<open>1/2\<close> token, where the formula gives 30 seconds, and again at time 145 with \<open>3/4\<close>
  token, where it gives 15 seconds. Neither outcome carries the header
  \<^verbatim>\<open>Retry-After: 30\<close> or \<^verbatim>\<open>Retry-After: 15\<close>: both are the exception of the
  constructor call, whose header argument is \<^verbatim>\<open>"60"\<close> both times.
\<close>

theorem retry_after_counterexample:
  "rate_limit_init 1 = Inr one_per_minute \<and>
   fst (run starlette_Response serve_ok
       [(chat_from ''10.0.0.1'', 100, 100), (chat_from ''10.0.0.1'', 101, 130),
        (chat_from ''10.0.0.1'', 101, 145)] (one_per_minute, 0)) =
     [Inr ok_response, Inl (AttributeError ''encode''), Inl (AttributeError ''encode'')] \<and>
   spec_retry_after (min 1 (0 + (130 - 100) * (1 / 60))) (1 / 60) = 30 \<and>
   spec_retry_after (min 1 (0 + (145 - 100) * (1 / 60))) (1 / 60) = 15 \<and>
   retry_after (Inl (AttributeError ''encode'')) \<noteq> Some (Str (str_nat 30)) \<and>
   retry_after (Inl (AttributeError ''encode'')) \<noteq> Some (Str (str_nat 15)) \<and>
   Str ''60'' \<noteq> Str (str_nat 30) \<and> Str ''60'' \<noteq> Str (str_nat 15)"
  using init_one by (simp add: eval_defs spec_retry_after_def)

text \<open>
  C3, amended. For every refused request the retry delay that the code hands to the
  response it constructs is the literal \<^verbatim>\<open>"60"\<close>: whatever the constructor, the outcome
  of \<^verbatim>\<open>dispatch\<close> is what the constructor makes of the error body, the status 429 and
  the single header \<^verbatim>\<open>Retry-After: 60\<close>. The delay depends neither on the refilled
  token count nor on the refill rate nor on the clock, so a second refusal, any time
  later, is given the same 60 seconds, not less. Whether the constructor returns the
  response is not part of the statement.
\<close>

theorem retry_after_is_sixty:
  assumes "path r \<noteq> ''/health''" and "fst (evaluate self (client_host r) t0 now) = Inr Deny"
  shows "fst (rate_limit_dispatch R h r t0 now (self, d)) =
           R [(''error'', ''Rate limit exceeded. Please try again later.'')] 429
             [''Retry-After'' \<mapsto> Str ''60'']"
  using assms dispatch_Deny [of r self t0 now "snd (evaluate self (client_host r) t0 now)" R h d]
  by (simp add: prod_eq_iff)

theorem retry_after_is_sixty_witness:
  "path (chat_from ''10.0.0.1'') \<noteq> ''/health'' \<and>
   fst (evaluate drained (client_host (chat_from ''10.0.0.1'')) 101 145) = Inr Deny \<and>
   fst (rate_limit_dispatch starlette_Response serve_ok (chat_from ''10.0.0.1'') 101 145
          (drained, 0)) =
     starlette_Response [(''error'', ''Rate limit exceeded. Please try again later.'')] 429
       [''Retry-After'' \<mapsto> Str ''60'']"
proof -
  have h1: "path (chat_from ''10.0.0.1'') \<noteq> ''/health''"
    by (simp add: chat_from_def)
  have h2: "fst (evaluate drained (client_host (chat_from ''10.0.0.1'')) 101 145) = Inr Deny"
    by (simp add: evaluate_def Let_def chat_from_def drained_def)
  from retry_after_is_sixty [OF h1 h2, of starlette_Response serve_ok 0] h1 h2 show ?thesis
    by simp
qed

section \<open>A clock that runs backwards\<close>

text \<open>
  A run against C4 as worded (the elapsed time is clamped at zero and the stored refill
  time never decreases). With sixty requests per minute, a client admitted at time 100
  has the bucket \<open>(59, 100)\<close>. Its next request reads the clock as 99: the time passed is
  \<open>-1\<close>, the refill gives \<open>59 - 1 = 58\<close> tokens, the request is admitted and the bucket
  becomes \<open>(57, 99)\<close>. The stored refill time went from 100 to 99, and a clamped elapsed
  time would have left 58 tokens.
\<close>

theorem clamp_counterexample:
  "rate_limit_init 60 = Inr sixty_per_minute \<and>
   tokens (fst (snd (run starlette_Response serve_ok [(chat_from ''10.0.0.1'', 100, 100)]
                       (sixty_per_minute, 0))))
     ''10.0.0.1'' = Some (59, 100) \<and>
   tokens (fst (snd (run starlette_Response serve_ok
       [(chat_from ''10.0.0.1'', 100, 100), (chat_from ''10.0.0.1'', 101, 99)]
       (sixty_per_minute, 0)))) ''10.0.0.1'' = Some (57, 99) \<and>
   (99::real) < 100 \<and>
   min 60 (59 + spec_elapsed 99 100 * 1) - 1 = (58::real)"
  using init_sixty by (simp add: eval_defs spec_elapsed_def)

text \<open>
  C4, amended. The time passed is \<open>now - last_refill\<close>, not clamped. For a client with the
  bucket \<open>(tks, lr)\<close> and a refill rate that is not negative, the refilled count is
  \<open>min capacity (tks + (now - lr) * rate)\<close>; the request is refused when it is below 1,
  and the bucket stays \<open>(tks, lr)\<close>, and admitted otherwise, and the bucket becomes the
  refilled count less one, with \<open>now\<close>. When \<open>now \<le> lr\<close> no tokens are minted: neither the
  refilled nor the stored count exceeds \<open>tks\<close>. The stored refill time does not decrease
  when \<open>lr \<le> now\<close>, that is as long as the clock readings do not.
\<close>

theorem refill_unclamped:
  assumes "tokens self c = Some (tks, lr)" and "0 \<le> refill_rate self"
  shows "let new_tokens = min (of_int (requests_per_minute self))
                              (tks + (now - lr) * refill_rate self);
             bucket' = (if new_tokens < 1 then (tks, lr) else (new_tokens - 1, now))
         in fst (evaluate self c t0 now) = (if new_tokens < 1 then Inr Deny else Inr Allow) \<and>
            tokens (snd (evaluate self c t0 now)) c = Some bucket' \<and>
            (now \<le> lr \<longrightarrow> new_tokens \<le> tks \<and> fst bucket' \<le> tks) \<and>
            (lr \<le> now \<longrightarrow> lr \<le> snd bucket')"
proof -
  have "now \<le> lr \<Longrightarrow> (now - lr) * refill_rate self \<le> 0"
    using assms(2) by (simp add: mult_nonpos_nonneg)
  then show ?thesis
    using assms(1) by (auto simp: evaluate_existing min_def Let_def)
qed

theorem refill_unclamped_witness:
  "tokens (sixty_per_minute\<lparr>tokens := [''10.0.0.1'' \<mapsto> (59, 100)]\<rparr>) ''10.0.0.1'' =
     Some (59, 100) \<and>
   0 \<le> refill_rate (sixty_per_minute\<lparr>tokens := [''10.0.0.1'' \<mapsto> (59, 100)]\<rparr>) \<and>
   fst (evaluate (sixty_per_minute\<lparr>tokens := [''10.0.0.1'' \<mapsto> (59, 100)]\<rparr>)
          ''10.0.0.1'' 101 99) = Inr Allow \<and>
   tokens (snd (evaluate (sixty_per_minute\<lparr>tokens := [''10.0.0.1'' \<mapsto> (59, 100)]\<rparr>)
          ''10.0.0.1'' 101 99)) ''10.0.0.1'' = Some (57, 99)"
proof -
  let ?s = "sixty_per_minute\<lparr>tokens := [''10.0.0.1'' \<mapsto> (59, 100)]\<rparr>"
  have h1: "tokens ?s ''10.0.0.1'' = Some (59, 100)" by simp
  have h2: "0 \<le> refill_rate ?s" by (simp add: sixty_per_minute_def)
  have h3: "requests_per_minute ?s = 60" "refill_rate ?s = 1"
    by (simp_all add: sixty_per_minute_def)
  from refill_unclamped [OF h1 h2, of 99 101] h1 h2 show ?thesis
    by (simp add: Let_def h3)
qed

section \<open>Construction\<close>

text \<open>
  Against C8 as worded (an invalid configuration makes construction fail): for zero and
  for \<open>-5\<close> requests per minute \<^verbatim>\<open>__init__\<close> returns a middleware object.
\<close>

theorem init_invalid_counterexample:
  "rate_limit_init 0 = Inr \<lparr>requests_per_minute = 0, tokens = Map.empty, refill_rate = 0\<rparr> \<and>
   rate_limit_init (- 5) =
     Inr \<lparr>requests_per_minute = - 5, tokens = Map.empty, refill_rate = - (1 / 12)\<rparr>"
  using float_limit_large by (simp add: rate_limit_init_def)

text \<open>
  C8, amended. An invalid configuration does not make construction fail: \<^verbatim>\<open>__init__\<close>
  checks neither the capacity nor the refill rate, and for every capacity \<open>rpm \<le> 0\<close>
  that a float can hold it returns the middleware with that capacity, no bucket and the
  refill rate \<open>rpm / 60\<close>, itself zero or negative.
\<close>

theorem init_accepts_invalid:
  assumes "rpm \<le> 0" and "- float_limit < rpm"
  shows "rate_limit_init rpm =
           Inr \<lparr>requests_per_minute = rpm, tokens = Map.empty, refill_rate = of_int rpm / 60\<rparr> \<and>
         of_int rpm / 60 \<le> (0::real)"
  using assms by (simp add: rate_limit_init_def)

theorem init_accepts_invalid_witness:
  "(- 5::int) \<le> 0 \<and> - float_limit < - 5 \<and>
   rate_limit_init (- 5) =
     Inr \<lparr>requests_per_minute = - 5, tokens = Map.empty, refill_rate = - (1 / 12)\<rparr>"
proof -
  have h1: "(- 5::int) \<le> 0" by simp
  have h2: "- float_limit < - 5" using float_limit_large by simp
  from init_accepts_invalid [OF h1 h2] h1 h2 show ?thesis by simp
qed

end
